theory Spec2Isabelle
  imports Complex_Main
begin

section \<open>Numbers, vectors and the vector store\<close>

text \<open>
  The program is \<^verbatim>\<open>src/script.js\<close>. JavaScript numbers are modelled as mathematical
  reals: \<^verbatim>\<open>Math.hypot\<close>, \<^verbatim>\<open>Math.pow\<close>, \<^verbatim>\<open>Math.cos\<close>, \<^verbatim>\<open>Math.sin\<close> and \<^verbatim>\<open>Math.acos\<close>
  are the real functions they approximate, and rounding is not modelled.

  A \<^verbatim>\<open>THREE.Vector3\<close> (and the Euler angles of \<^verbatim>\<open>mesh.rotation\<close>) is a mutable
  object. Particles and meshes hold references to such objects, so the objects live in
  a store indexed by addresses, and \<^verbatim>\<open>new THREE.Vector3(..)\<close> allocates the next
  free address.
\<close>

datatype vec3 = Vector3 (vx: real) (vy: real) (vz: real)

record heap =
  cells :: "nat \<Rightarrow> vec3"
  nextAddr :: nat

definition new_Vector3 :: "vec3 \<Rightarrow> heap \<Rightarrow> nat \<times> heap" where
  "new_Vector3 v h = (nextAddr h, h\<lparr>cells := (cells h)(nextAddr h := v), nextAddr := nextAddr h + 1\<rparr>)"

text \<open>\<^verbatim>\<open>v.set(x, y, z)\<close> on the object at address \<open>a\<close>.\<close>

definition setV :: "nat \<Rightarrow> vec3 \<Rightarrow> heap \<Rightarrow> heap" where
  "setV a v h = h\<lparr>cells := (cells h)(a := v)\<rparr>"

text \<open>
  \<^verbatim>\<open>Vector3.lerp(v, alpha)\<close> of three.js adds \<^verbatim>\<open>(v.c - this.c) * alpha\<close> to each
  component \<^verbatim>\<open>c\<close> of the receiver and only reads its argument; \<open>lerpV\<close> is the
  receiver's new value. \<^verbatim>\<open>MathUtils.lerp(x, y, t)\<close> is \<^verbatim>\<open>(1 - t) * x + t * y\<close>.
\<close>

definition lerpV :: "vec3 \<Rightarrow> vec3 \<Rightarrow> real \<Rightarrow> vec3" where
  "lerpV p v alpha =
     Vector3 (vx p + (vx v - vx p) * alpha) (vy p + (vy v - vy p) * alpha) (vz p + (vz v - vz p) * alpha)"

definition MathUtils_lerp :: "real \<Rightarrow> real \<Rightarrow> real \<Rightarrow> real" where
  "MathUtils_lerp a b t = (1 - t) * a + t * b"

definition Math_hypot :: "real \<Rightarrow> real \<Rightarrow> real" where
  "Math_hypot a b = sqrt (a\<^sup>2 + b\<^sup>2)"

text \<open>
  \<^verbatim>\<open>Math.random()\<close>: the generator is a fixed sequence of draws and a cursor; a call
  returns the draw under the cursor and advances it. The specification of
  \<^verbatim>\<open>Math.random\<close> puts every draw in \<open>[0, 1)\<close>, which is \<open>rng_ok\<close>.
\<close>

record rng =
  draws :: "nat \<Rightarrow> real"
  cursor :: nat

definition Math_random :: "rng \<Rightarrow> real \<times> rng" where
  "Math_random g = (draws g (cursor g), g\<lparr>cursor := cursor g + 1\<rparr>)"

definition rng_ok :: "rng \<Rightarrow> bool" where
  "rng_ok g = (\<forall>i. 0 \<le> draws g i \<and> draws g i < 1)"

section \<open>Configuration\<close>

definition treeHeight :: real where
  "treeHeight = 24"

definition treeRadius :: real where
  "treeRadius = 8"

section \<open>Particles\<close>

text \<open>
  A mesh is an object of the rendering library; the program touches its \<^verbatim>\<open>id\<close>, and
  its \<^verbatim>\<open>position\<close>, \<^verbatim>\<open>rotation\<close> and \<^verbatim>\<open>scale\<close> objects, held by reference. Two mesh
  references are equal (\<^verbatim>\<open>===\<close>) exactly when they are the same object.
\<close>

record mesh =
  mesh_id :: nat
  position :: nat
  rotation :: nat
  scale :: nat

datatype ptype = BOX | GOLD_BOX | GOLD_SPHERE | RED | CANE | DUST | PHOTO

record particle =
  mesh :: mesh
  ptype :: ptype
  isDust :: bool
  posTree :: nat
  posScatter :: nat
  baseScale :: real
  spinSpeed :: nat

text \<open>
  \<^verbatim>\<open>Particle.calculatePositions\<close>: six draws, in the order the source makes them; the
  tree target is written into the object \<^verbatim>\<open>this.posTree\<close>, then the scatter target
  into \<^verbatim>\<open>this.posScatter\<close>.
\<close>

definition calculatePositions :: "particle \<Rightarrow> heap \<Rightarrow> rng \<Rightarrow> heap \<times> rng" where
  "calculatePositions p h0 g0 =
     (let hh = treeHeight;
          (u1, g1) = Math_random g0;
          t = u1 powr 0.8;
          y = (t * hh) - (hh / 2);
          rMax = max 0.5 (treeRadius * (1.0 - t));
          (u2, g2) = Math_random g1;
          angle = t * 50 * pi + u2 * pi;
          (u3, g3) = Math_random g2;
          r = rMax * (0.8 + u3 * 0.4);
          h1 = setV (posTree p) (Vector3 (cos angle * r) y (sin angle * r)) h0;
          (u4, g4) = Math_random g3;
          rScatter = (if isDust p then 12 + u4 * 20 else 8 + u4 * 12);
          (u5, g5) = Math_random g4;
          theta = u5 * pi * 2;
          (u6, g6) = Math_random g5;
          phi = arccos (2 * u6 - 1);
          h2 = setV (posScatter p)
                 (Vector3 (rScatter * sin phi * cos theta)
                          (rScatter * sin phi * sin theta)
                          (rScatter * cos phi)) h1
      in (h2, g6))"

text \<open>
  The constructor \<^verbatim>\<open>new Particle(mesh, type, isDust)\<close>: two fresh vectors for the
  layout targets, the base scale read from the mesh, three draws for the spin velocity
  (a third fresh vector), then \<open>calculatePositions\<close>.
\<close>

definition Particle :: "mesh \<Rightarrow> ptype \<Rightarrow> bool \<Rightarrow> heap \<Rightarrow> rng \<Rightarrow> particle \<times> heap \<times> rng" where
  "Particle m ty dust h0 g0 =
     (let (aTree, h1) = new_Vector3 (Vector3 0 0 0) h0;
          (aScatter, h2) = new_Vector3 (Vector3 0 0 0) h1;
          bs = vx (cells h2 (scale m));
          speedMult = (if ty = PHOTO then 0.3 else 2.0);
          (u1, g1) = Math_random g0;
          (u2, g2) = Math_random g1;
          (u3, g3) = Math_random g2;
          (aSpin, h3) = new_Vector3
             (Vector3 ((u1 - 0.5) * speedMult) ((u2 - 0.5) * speedMult) ((u3 - 0.5) * speedMult)) h2;
          p = \<lparr>mesh = m, ptype = ty, isDust = dust, posTree = aTree, posScatter = aScatter,
               baseScale = bs, spinSpeed = aSpin\<rparr>;
          (h4, g4) = calculatePositions p h3 g3
      in (p, h4, g4))"

text \<open>
  The two measures the layout claims speak of: the distance of a point from the vertical
  trunk axis (the \<open>y\<close> axis), and its distance from the origin.
\<close>

definition horizontalRadius :: "vec3 \<Rightarrow> real" where
  "horizontalRadius v = sqrt ((vx v)\<^sup>2 + (vz v)\<^sup>2)"

definition distanceFromOrigin :: "vec3 \<Rightarrow> real" where
  "distanceFromOrigin v = sqrt ((vx v)\<^sup>2 + (vy v)\<^sup>2 + (vz v)\<^sup>2)"

text \<open>The layout targets of a freshly constructed particle, read back from the store.\<close>

definition treeTargetOf :: "particle \<times> heap \<times> rng \<Rightarrow> vec3" where
  "treeTargetOf r = (case r of (p, h, g) \<Rightarrow> cells h (posTree p))"

definition scatterTargetOf :: "particle \<times> heap \<times> rng \<Rightarrow> vec3" where
  "scatterTargetOf r = (case r of (p, h, g) \<Rightarrow> cells h (posScatter p))"

section \<open>The per-frame update\<close>

datatype mode = TREE | SCATTER | FOCUS

text \<open>
  What \<^verbatim>\<open>Particle.update\<close> reads from the globals \<^verbatim>\<open>mainGroup\<close>, \<^verbatim>\<open>camera\<close> and
  \<^verbatim>\<open>clock\<close>, whose code belongs to the rendering library:
  \<^item> \<open>worldToLocal\<close> is \<^verbatim>\<open>v.applyMatrix4(inverse of mainGroup.matrixWorld)\<close>;
  \<^item> \<open>lookAtRotation\<close> gives the Euler angles that \<^verbatim>\<open>mesh.lookAt(camera.position)\<close>
    leaves in \<^verbatim>\<open>mesh.rotation\<close> (\<^verbatim>\<open>lookAt\<close> writes the orientation of its receiver
    and nothing else);
  \<^item> \<open>elapsedTime\<close> is \<^verbatim>\<open>clock.elapsedTime\<close>.
\<close>

record env =
  worldToLocal :: "vec3 \<Rightarrow> vec3"
  lookAtRotation :: "mesh \<Rightarrow> heap \<Rightarrow> vec3"
  elapsedTime :: real

text \<open>The interpolation target that \<^verbatim>\<open>update\<close> computes in its first lines.\<close>

definition updateTarget :: "env \<Rightarrow> mode \<Rightarrow> mesh option \<Rightarrow> particle \<Rightarrow> heap \<Rightarrow> vec3" where
  "updateTarget e md focusTargetMesh p h =
     (let target = (if md = SCATTER then cells h (posScatter p) else cells h (posTree p))
      in if md = FOCUS then
           (if Some (mesh p) = focusTargetMesh then worldToLocal e (Vector3 0 2 35)
            else cells h (posScatter p))
         else target)"

text \<open>
  \<^verbatim>\<open>Particle.update(dt, mode, focusTargetMesh)\<close>. It returns the receiver and the store;
  the source assigns to no field of \<^verbatim>\<open>this\<close>, only into the three objects of
  \<^verbatim>\<open>this.mesh\<close>.
\<close>

definition update :: "env \<Rightarrow> real \<Rightarrow> mode \<Rightarrow> mesh option \<Rightarrow> particle \<Rightarrow> heap \<Rightarrow> particle \<times> heap" where
  "update e dt md focusTargetMesh p h0 =
     (let m = mesh p;
          target = updateTarget e md focusTargetMesh p h0;
          lerpSpeed = (if md = FOCUS \<and> Some m = focusTargetMesh then 5.0 else 2.0);
          h1 = setV (position m) (lerpV (cells h0 (position m)) target (lerpSpeed * dt)) h0;
          rot = cells h1 (rotation m);
          spin = cells h1 (spinSpeed p);
          h2 = (if md = SCATTER then
                  setV (rotation m)
                    (Vector3 (vx rot + vx spin * dt) (vy rot + vy spin * dt) (vz rot + vz spin * dt)) h1
                else if md = TREE then
                  setV (rotation m)
                    (Vector3 (MathUtils_lerp (vx rot) 0 dt) (vy rot + 0.5 * dt)
                             (MathUtils_lerp (vz rot) 0 dt)) h1
                else h1);
          h3 = (if md = FOCUS \<and> Some m = focusTargetMesh
                then setV (rotation m) (lookAtRotation e m h2) h2 else h2);
          s = (if isDust p then
                 (if md = TREE then 0
                  else baseScale p * (0.8 + 0.4 * sin (elapsedTime e * 4 + real (mesh_id m))))
               else if md = SCATTER \<and> ptype p = PHOTO then baseScale p * 2.5
               else if md = FOCUS then
                 (if Some m = focusTargetMesh then 4.5 else baseScale p * 0.8)
               else baseScale p);
          h4 = setV (scale m) (lerpV (cells h3 (scale m)) (Vector3 s s s) (4 * dt)) h3
      in (p, h4))"

text \<open>
  A run of frames for one particle: each frame brings its own environment, elapsed
  time, mode and focus target.
\<close>

fun updates :: "(env \<times> real \<times> mode \<times> mesh option) list \<Rightarrow> particle \<Rightarrow> heap \<Rightarrow> particle \<times> heap" where
  "updates [] p h = (p, h)"
| "updates ((e, dt, md, ft) # frames) p h =
     (case update e dt md ft p h of (p', h') \<Rightarrow> updates frames p' h')"

text \<open>
  The objects that a particle built by the constructor refers to are six different
  ones: the three of its mesh and the three vectors the constructor allocates.
\<close>

definition particle_wf :: "particle \<Rightarrow> bool" where
  "particle_wf p =
     distinct [position (mesh p), rotation (mesh p), scale (mesh p),
               posTree p, posScatter p, spinSpeed p]"

section \<open>The mode state machine\<close>

record hand_signal =
  detected :: bool
  hand_x :: real
  hand_y :: real

record angles =
  rot_x :: real
  rot_y :: real

text \<open>The global \<^verbatim>\<open>STATE\<close>; its field \<^verbatim>\<open>rotation\<close> is \<open>rotationXY\<close> here.\<close>

record STATE =
  mode :: mode
  focusIndex :: int
  focusTarget :: "mesh option"
  hand :: hand_signal
  rotationXY :: angles

definition STATE0 :: STATE where
  "STATE0 = \<lparr>mode = TREE, focusIndex = -1, focusTarget = None,
             hand = \<lparr>detected = False, hand_x = 0, hand_y = 0\<rparr>,
             rotationXY = \<lparr>rot_x = 0, rot_y = 0\<rparr>\<rparr>"

datatype landmark = Landmark (lm_x: real) (lm_y: real) (lm_z: real)

text \<open>
  The detector's result: \<^verbatim>\<open>result.landmarks\<close> may be missing (\<open>None\<close>), and holds
  one landmark list per detected hand.
\<close>

record result =
  landmarks :: "landmark list list option"

definition pinchDist :: "landmark list \<Rightarrow> real" where
  "pinchDist lm = Math_hypot (lm_x (lm ! 4) - lm_x (lm ! 8)) (lm_y (lm ! 4) - lm_y (lm ! 8))"

definition avgDist :: "landmark list \<Rightarrow> real" where
  "avgDist lm =
     (let wrist = lm ! 0
      in foldl (\<lambda>sum i. sum + Math_hypot (lm_x (lm ! i) - lm_x wrist) (lm_y (lm ! i) - lm_y wrist))
           0 [8, 12, 16, 20] / 4)"

datatype error = TypeError

text \<open>
  \<^verbatim>\<open>processGestures(result)\<close> on the global state and the generator, reading the global
  \<^verbatim>\<open>particleSystem\<close>. Reading a property of a landmark that the list does not have
  (\<^verbatim>\<open>lm[9].x\<close> with fewer than ten landmarks, a fingertip with fewer than 21), or of
  a photo outside the list, throws a \<^verbatim>\<open>TypeError\<close>; \<open>Inl\<close> carries the state as the
  assignments before the throw left it.
\<close>

definition processGestures ::
    "result \<Rightarrow> particle list \<Rightarrow> STATE \<times> rng \<Rightarrow> (error \<times> STATE \<times> rng) + (STATE \<times> rng)" where
  "processGestures res particleSystem w =
     (case w of (st, g) \<Rightarrow>
        (case landmarks res of
           None \<Rightarrow> Inr (st\<lparr>hand := (hand st)\<lparr>detected := False\<rparr>\<rparr>, g)
         | Some [] \<Rightarrow> Inr (st\<lparr>hand := (hand st)\<lparr>detected := False\<rparr>\<rparr>, g)
         | Some (lm # others) \<Rightarrow>
             (let st1 = st\<lparr>hand := (hand st)\<lparr>detected := True\<rparr>\<rparr>
              in if length lm \<le> 9 then Inl (TypeError, st1, g)
                 else
                   (let st2 = st1\<lparr>hand := (hand st1)\<lparr>hand_x := (lm_x (lm ! 9) - 0.5) * 2,
                                                     hand_y := (lm_y (lm ! 9) - 0.5) * 2\<rparr>\<rparr>
                    in if length lm \<le> 20 then Inl (TypeError, st2, g)
                       else if pinchDist lm < 0.05 then
                         (if mode st2 \<noteq> FOCUS then
                            (let st3 = st2\<lparr>mode := FOCUS\<rparr>;
                                 photos = filter (\<lambda>p. ptype p = PHOTO) particleSystem
                             in if length photos \<noteq> 0 then
                                  (case Math_random g of (u, g') \<Rightarrow>
                                     (let i = \<lfloor>u * real (length photos)\<rfloor>
                                      in if 0 \<le> i \<and> i < int (length photos)
                                         then Inr (st3\<lparr>focusTarget := Some (mesh (photos ! nat i))\<rparr>, g')
                                         else Inl (TypeError, st3, g')))
                                else Inr (st3, g))
                          else Inr (st2, g))
                       else if avgDist lm < 0.25 then Inr (st2\<lparr>mode := TREE, focusTarget := None\<rparr>, g)
                       else if avgDist lm > 0.4 then Inr (st2\<lparr>mode := SCATTER, focusTarget := None\<rparr>, g)
                       else Inr (st2, g)))))"

text \<open>The global state after a call, whether it returned or threw.\<close>

definition stateAfter :: "(error \<times> STATE \<times> rng) + (STATE \<times> rng) \<Rightarrow> STATE" where
  "stateAfter r = (case r of Inl (e, st, g) \<Rightarrow> st | Inr (st, g) \<Rightarrow> st)"

text \<open>
  A sequence of detection frames. Each call sees the particle system of its moment
  (photos may have been uploaded in between). \<^verbatim>\<open>predictWebcam\<close> schedules the next
  frame after \<^verbatim>\<open>processGestures\<close> returns, so a throw ends the sequence.
\<close>

fun runGestures :: "(result \<times> particle list) list \<Rightarrow> STATE \<times> rng \<Rightarrow> STATE \<times> rng" where
  "runGestures [] w = w"
| "runGestures ((res, ps) # calls) w =
     (case processGestures res ps w of
        Inl (e, w') \<Rightarrow> w'
      | Inr w' \<Rightarrow> runGestures calls w')"

section \<open>Concrete inputs\<close>

text \<open>A mesh with its three objects at addresses 0, 1 and 2, of scale 1.\<close>

definition mesh0 :: mesh where
  "mesh0 = \<lparr>mesh_id = 0, position = 0, rotation = 1, scale = 2\<rparr>"

definition heap0 :: heap where
  "heap0 = \<lparr>cells = (\<lambda>a. Vector3 0 0 0)(2 := Vector3 1 1 1), nextAddr = 3\<rparr>"

text \<open>
  Two generators: one whose sixth draw (the radius jitter of the first particle built)
  is 0.9 and every other draw 0, and one that always draws 0.5.
\<close>

definition rngWide :: rng where
  "rngWide = \<lparr>draws = (\<lambda>i. if i = 5 then 9/10 else 0), cursor = 0\<rparr>"

definition rngHalf :: rng where
  "rngHalf = \<lparr>draws = (\<lambda>i. 1/2), cursor = 0\<rparr>"

text \<open>
  A hand of 21 landmarks given by its wrist \<open>w\<close> (also standing in for the landmarks
  the gestures do not read), its thumb tip \<open>t\<close> (landmark 4) and one point \<open>f\<close> for
  the four fingertips (landmarks 8, 12, 16 and 20); \<open>flatHand t f\<close> puts the wrist at
  the origin and the tips on the horizontal axis.
\<close>

definition hand21 :: "landmark \<Rightarrow> landmark \<Rightarrow> landmark \<Rightarrow> landmark list" where
  "hand21 w t f = [w, w, w, w, t, w, w, w, f, w, w, w, f, w, w, w, f, w, w, w, f]"

definition flatHand :: "real \<Rightarrow> real \<Rightarrow> landmark list" where
  "flatHand t f = hand21 (Landmark 0 0 0) (Landmark t 0 0) (Landmark f 0 0)"

text \<open>A particle system of one box and two photos.\<close>

definition boxC :: particle where
  "boxC = \<lparr>mesh = \<lparr>mesh_id = 1, position = 10, rotation = 11, scale = 12\<rparr>, ptype = BOX,
           isDust = False, posTree = 13, posScatter = 14, baseScale = 1/2, spinSpeed = 15\<rparr>"

definition photoA :: particle where
  "photoA = \<lparr>mesh = \<lparr>mesh_id = 2, position = 20, rotation = 21, scale = 22\<rparr>, ptype = PHOTO,
             isDust = False, posTree = 23, posScatter = 24, baseScale = 4/5, spinSpeed = 25\<rparr>"

definition photoB :: particle where
  "photoB = \<lparr>mesh = \<lparr>mesh_id = 3, position = 30, rotation = 31, scale = 32\<rparr>, ptype = PHOTO,
             isDust = False, posTree = 33, posScatter = 34, baseScale = 4/5, spinSpeed = 35\<rparr>"

text \<open>
  A hand that pinches (thumb tip on the index tip, both 0.5 from the wrist) with the
  other three fingertips curled onto the wrist.
\<close>

definition curledHand :: "landmark list" where
  "curledHand = (flatHand (1/2) (1/2))[12 := Landmark 0 0 0, 16 := Landmark 0 0 0, 20 := Landmark 0 0 0]"

text \<open>
  Two detection frames: an open hand while no photo exists, then a pinch once two photos
  have been uploaded.
\<close>

definition callsPinch :: "(result \<times> particle list) list" where
  "callsPinch = [(\<lparr>landmarks = Some [flatHand 0 (1/2)]\<rparr>, [boxC]),
                 (\<lparr>landmarks = Some [flatHand (8/25) (3/10)]\<rparr>, [boxC, photoA, photoB])]"

text \<open>
  An environment whose group transform is the identity, and three frames in the three
  modes; the particle and the store that the constructor builds on \<open>mesh0\<close>.
\<close>

definition envW :: env where
  "envW = \<lparr>worldToLocal = (\<lambda>v. v), lookAtRotation = (\<lambda>m h. Vector3 0 0 0), elapsedTime = 0\<rparr>"

definition framesW :: "(env \<times> real \<times> mode \<times> mesh option) list" where
  "framesW = [(envW, 1/10, SCATTER, None), (envW, 1/10, FOCUS, Some mesh0), (envW, 1/10, TREE, None)]"

definition particleW :: particle where
  "particleW = fst (Particle mesh0 BOX False heap0 rngWide)"

definition heapW :: heap where
  "heapW = fst (snd (Particle mesh0 BOX False heap0 rngWide))"

text \<open>
  Two stores for the particle \<open>boxC\<close>: in \<open>heapC\<close> its position equals its scatter
  target, in \<open>heapF\<close> its position is the focus point in front of the camera.
\<close>

definition heapC :: heap where
  "heapC = \<lparr>cells = (\<lambda>a. Vector3 0 0 0)(10 := Vector3 1 2 3, 14 := Vector3 1 2 3), nextAddr = 16\<rparr>"

definition heapF :: heap where
  "heapF = \<lparr>cells = (\<lambda>a. Vector3 0 0 0)(10 := Vector3 0 2 35), nextAddr = 16\<rparr>"

definition framesC :: "(env \<times> real) list" where
  "framesC = [(envW, 1/10), (envW, 1/5)]"

section \<open>Auxiliary facts\<close>

lemma treeTargetOf_Particle:
  "treeTargetOf (Particle m ty dust h g) =
     (let t = draws g (cursor g + 3) powr 0.8;
          angle = t * 50 * pi + draws g (cursor g + 4) * pi;
          r = max 0.5 (treeRadius * (1.0 - t)) * (0.8 + draws g (cursor g + 5) * 0.4)
      in Vector3 (cos angle * r) ((t * treeHeight) - (treeHeight / 2)) (sin angle * r))"
  by (simp add: treeTargetOf_def Particle_def calculatePositions_def new_Vector3_def
      Math_random_def setV_def Let_def eval_nat_numeral)

lemma scatterTargetOf_Particle:
  "scatterTargetOf (Particle m ty dust h g) =
     (let rScatter = (if dust then 12 + draws g (cursor g + 6) * 20
                      else 8 + draws g (cursor g + 6) * 12);
          theta = draws g (cursor g + 7) * pi * 2;
          phi = arccos (2 * draws g (cursor g + 8) - 1)
      in Vector3 (rScatter * sin phi * cos theta) (rScatter * sin phi * sin theta)
           (rScatter * cos phi))"
  by (simp add: scatterTargetOf_def Particle_def calculatePositions_def new_Vector3_def
      Math_random_def setV_def Let_def eval_nat_numeral)

lemma horizontalRadius_polar: "horizontalRadius (Vector3 (cos a * r) y (sin a * r)) = \<bar>r\<bar>"
proof -
  have "(cos a * r)\<^sup>2 + (sin a * r)\<^sup>2 = r\<^sup>2 * ((sin a)\<^sup>2 + (cos a)\<^sup>2)"
    by (simp only: power_mult_distrib distrib_left mult_ac)
  then show ?thesis by (simp add: horizontalRadius_def)
qed

lemma distanceFromOrigin_spherical:
  "distanceFromOrigin (Vector3 (r * sin phi * cos theta) (r * sin phi * sin theta) (r * cos phi)) = \<bar>r\<bar>"
proof -
  have "(r * sin phi * cos theta)\<^sup>2 + (r * sin phi * sin theta)\<^sup>2 + (r * cos phi)\<^sup>2
        = r\<^sup>2 * ((sin phi)\<^sup>2 * ((sin theta)\<^sup>2 + (cos theta)\<^sup>2) + (cos phi)\<^sup>2)"
    by (simp only: power_mult_distrib distrib_left mult_ac)
  then show ?thesis by (simp add: distanceFromOrigin_def)
qed

lemma rng_ok_rngWide: "rng_ok rngWide"
  by (simp add: rng_ok_def rngWide_def)

lemma rng_ok_rngHalf: "rng_ok rngHalf"
  by (simp add: rng_ok_def rngHalf_def)

lemma treeTarget_rngWide:
  "treeTargetOf (Particle mesh0 BOX False heap0 rngWide) = Vector3 (232/25) (-12) 0"
  by (simp add: treeTargetOf_Particle rngWide_def treeRadius_def treeHeight_def Let_def)

lemma tree_radius_bounds:
  assumes "0 \<le> u3" "u3 < 1"
  shows "0 \<le> max 0.5 (treeRadius * (1.0 - u powr 0.8)) * (0.8 + u3 * 0.4)"
    and "max 0.5 (treeRadius * (1.0 - u powr 0.8)) * (0.8 + u3 * 0.4) \<le> 1.2 * treeRadius"
proof -
  let ?rMax = "max 0.5 (treeRadius * (1.0 - u powr 0.8))"
  let ?f = "0.8 + u3 * 0.4"
  have t0: "0 \<le> u powr 0.8" by simp
  have rlo: "0 \<le> ?rMax" by simp
  have rhi: "?rMax \<le> treeRadius" using t0 by (simp add: treeRadius_def)
  have flo: "0 \<le> ?f" using assms by simp
  have fhi: "?f \<le> 1.2" using assms by simp
  show "0 \<le> ?rMax * ?f" using rlo flo by (rule mult_nonneg_nonneg)
  have "?rMax * ?f \<le> treeRadius * 1.2"
    using rhi fhi rlo flo by (intro mult_mono) (simp_all add: treeRadius_def)
  then show "?rMax * ?f \<le> 1.2 * treeRadius" by (simp add: mult.commute)
qed

lemma Math_hypot_0: "Math_hypot a 0 = \<bar>a\<bar>"
  by (simp add: Math_hypot_def)

lemma length_flatHand: "length (flatHand t f) = 21"
  by (simp add: flatHand_def hand21_def)

lemma pinchDist_flatHand: "pinchDist (flatHand t f) = \<bar>t - f\<bar>"
  by (simp add: pinchDist_def flatHand_def hand21_def Math_hypot_0)

lemma avgDist_flatHand: "avgDist (flatHand t f) = \<bar>f\<bar>"
  by (simp add: avgDist_def flatHand_def hand21_def Math_hypot_0)

text \<open>
  The photo index \<^verbatim>\<open>Math.floor(Math.random() * photos.length)\<close>: in range for a draw
  in \<open>[0, 1)\<close>, and equal to \<open>j\<close> exactly for the draws in \<open>[j / n, (j + 1) / n)\<close>.
\<close>

lemma pick_index:
  assumes "0 \<le> u" "u < 1" "0 < n"
  shows "0 \<le> \<lfloor>u * real n\<rfloor>" "\<lfloor>u * real n\<rfloor> < int n"
proof -
  show "0 \<le> \<lfloor>u * real n\<rfloor>" using assms by simp
  have "u * real n < real n" using assms by simp
  then show "\<lfloor>u * real n\<rfloor> < int n" by (simp add: floor_less_iff)
qed

lemma pick_interval:
  assumes "0 \<le> u" "0 < n"
  shows "(nat \<lfloor>u * real n\<rfloor> = j) = (real j / real n \<le> u \<and> u < real (j + 1) / real n)"
proof -
  have "0 \<le> u * real n" using assms by simp
  then have "(nat \<lfloor>u * real n\<rfloor> = j) = (\<lfloor>u * real n\<rfloor> = int j)"
    by (metis nat_int int_nat_eq zero_le_floor)
  also have "\<dots> = (real j \<le> u * real n \<and> u * real n < real j + 1)"
    by (simp add: floor_eq_iff)
  also have "\<dots> = (real j / real n \<le> u \<and> u < real (j + 1) / real n)"
    using assms by (simp add: pos_divide_le_eq pos_less_divide_eq add.commute)
  finally show ?thesis .
qed

lemma length_curledHand: "length curledHand = 21"
  by (simp add: curledHand_def length_flatHand)

lemma avgDist_curledHand: "avgDist curledHand = 1/8"
  by (simp add: avgDist_def curledHand_def flatHand_def hand21_def Math_hypot_0)

lemma curledHand_nth:
  "curledHand ! 4 = flatHand (1/2) (1/2) ! 4" "curledHand ! 8 = flatHand (1/2) (1/2) ! 8"
  "curledHand ! 9 = flatHand (1/2) (1/2) ! 9"
  by (simp_all add: curledHand_def flatHand_def hand21_def)

lemma processGestures_keeps_focus_inv:
  assumes "focusTarget st \<noteq> None \<longrightarrow> mode st = FOCUS"
  shows "focusTarget (stateAfter (processGestures res ps (st, g))) \<noteq> None \<longrightarrow>
         mode (stateAfter (processGestures res ps (st, g))) = FOCUS"
  using assms
  by (simp add: processGestures_def stateAfter_def Let_def Math_random_def
      split: option.splits list.splits)

lemma runGestures_keeps_focus_inv:
  "(focusTarget (fst w) \<noteq> None \<longrightarrow> mode (fst w) = FOCUS) \<Longrightarrow>
   focusTarget (fst (runGestures calls w)) \<noteq> None \<longrightarrow> mode (fst (runGestures calls w)) = FOCUS"
proof (induction calls arbitrary: w)
  case Nil
  then show ?case by simp
next
  case (Cons c calls)
  obtain res ps where c: "c = (res, ps)" by (cases c)
  obtain st g where w: "w = (st, g)" by (cases w)
  from Cons.prems have inv: "focusTarget st \<noteq> None \<longrightarrow> mode st = FOCUS" by (simp add: w)
  note step = processGestures_keeps_focus_inv [OF inv, of res ps g]
  show ?case
  proof (cases "processGestures res ps (st, g)")
    case (Inl a)
    obtain e st' g' where a: "a = (e, st', g')" by (cases a)
    from step Inl a show ?thesis by (simp add: c w stateAfter_def)
  next
    case (Inr b)
    obtain st' g' where b: "b = (st', g')" by (cases b)
    from step Inr b have "focusTarget (fst b) \<noteq> None \<longrightarrow> mode (fst b) = FOCUS"
      by (simp add: stateAfter_def)
    from Cons.IH [OF this] Inr show ?thesis by (simp add: c w)
  qed
qed

lemma runGestures_callsPinch:
  "focusTarget (fst (runGestures callsPinch (STATE0, rngHalf))) = Some (mesh photoB)"
  by (simp add: callsPinch_def processGestures_def Let_def length_flatHand pinchDist_flatHand
      avgDist_flatHand STATE0_def boxC_def photoA_def photoB_def rngHalf_def Math_random_def)

lemma pinch_ignores_other_landmarks:
  assumes "landmarks res = Some (lm # others)" "length lm = 21" "length lm' = 21"
    and "lm' ! 4 = lm ! 4" "lm' ! 8 = lm ! 8" "lm' ! 9 = lm ! 9"
    and "pinchDist lm < 0.05"
  shows "processGestures \<lparr>landmarks = Some (lm' # others')\<rparr> ps (st, g) =
         processGestures res ps (st, g)"
proof -
  have "pinchDist lm' = pinchDist lm"
    using assms by (simp add: pinchDist_def)
  then show ?thesis
    using assms by (simp add: processGestures_def Let_def)
qed

lemma pinch_gives_FOCUS:
  assumes res: "landmarks res = Some (lm # others)"
    and len: "length lm = 21"
    and pinch: "pinchDist lm < 0.05"
    and g: "rng_ok g"
  shows "\<exists>st' g'. processGestures res ps (st, g) = Inr (st', g') \<and> mode st' = FOCUS \<and>
           (mode st = FOCUS \<longrightarrow> focusTarget st' = focusTarget st)"
proof -
  let ?n = "length (filter (\<lambda>p. ptype p = PHOTO) ps)"
  let ?u = "draws g (cursor g)"
  have u: "0 \<le> ?u" "?u < 1" using g by (simp_all add: rng_ok_def)
  show ?thesis
  proof (cases "?n = 0")
    case True
    then show ?thesis using res len pinch
      by (simp add: processGestures_def Let_def)
  next
    case False
    then have n: "0 < ?n" by simp
    note i = pick_index [OF u n]
    show ?thesis using res len pinch False i
      by (simp add: processGestures_def Let_def Math_random_def)
  qed
qed

lemma update_fst: "fst (update e dt md ft p h) = p"
  by (simp add: update_def Let_def)

lemma update_frame:
  assumes "a \<noteq> position (mesh p)" "a \<noteq> rotation (mesh p)" "a \<noteq> scale (mesh p)"
  shows "cells (snd (update e dt md ft p h)) a = cells h a"
  using assms by (simp add: update_def Let_def setV_def)

lemma lerpV_same: "lerpV v v alpha = v"
  by (simp add: lerpV_def)

lemma update_position:
  assumes "position (mesh p) \<noteq> rotation (mesh p)" "position (mesh p) \<noteq> scale (mesh p)"
  shows "cells (snd (update e dt md ft p h)) (position (mesh p)) =
         lerpV (cells h (position (mesh p))) (updateTarget e md ft p h)
           ((if md = FOCUS \<and> Some (mesh p) = ft then 5.0 else 2.0) * dt)"
  using assms by (simp add: update_def Let_def setV_def)

lemma updateTarget_cong:
  assumes "cells h' (posTree p) = cells h (posTree p)" "cells h' (posScatter p) = cells h (posScatter p)"
  shows "updateTarget e md ft p h' = updateTarget e md ft p h"
  using assms by (simp add: updateTarget_def Let_def)

lemma updates_Cons:
  "updates ((e, dt, md, ft) # frames) p h = updates frames p (snd (update e dt md ft p h))"
  by (simp add: split_def update_fst)

lemma updates_fst: "fst (updates frames p h) = p"
proof (induction frames arbitrary: h)
  case Nil
  then show ?case by simp
next
  case (Cons f frames)
  obtain e dt md ft where f: "f = (e, dt, md, ft)" by (cases f)
  show ?case unfolding f updates_Cons by (rule Cons.IH)
qed

lemma updates_frame:
  assumes "a \<noteq> position (mesh p)" "a \<noteq> rotation (mesh p)" "a \<noteq> scale (mesh p)"
  shows "cells (snd (updates frames p h)) a = cells h a"
proof (induction frames arbitrary: h)
  case Nil
  then show ?case by simp
next
  case (Cons f frames)
  obtain e dt md ft where f: "f = (e, dt, md, ft)" by (cases f)
  have "cells (snd (updates (f # frames) p h)) a = cells (snd (update e dt md ft p h)) a"
    unfolding f updates_Cons by (rule Cons.IH)
  then show ?case using update_frame [OF assms] by simp
qed

lemma Particle_fields:
  assumes "scale m < nextAddr h"
  shows "mesh (fst (Particle m ty dust h g)) = m"
    and "ptype (fst (Particle m ty dust h g)) = ty"
    and "isDust (fst (Particle m ty dust h g)) = dust"
    and "posTree (fst (Particle m ty dust h g)) = nextAddr h"
    and "posScatter (fst (Particle m ty dust h g)) = nextAddr h + 1"
    and "spinSpeed (fst (Particle m ty dust h g)) = nextAddr h + 2"
    and "baseScale (fst (Particle m ty dust h g)) = vx (cells h (scale m))"
  using assms
  by (simp_all add: Particle_def calculatePositions_def new_Vector3_def Math_random_def setV_def
      Let_def)

lemma Particle_wf:
  assumes "distinct [position m, rotation m, scale m]"
    and "position m < nextAddr h" "rotation m < nextAddr h" "scale m < nextAddr h"
  shows "particle_wf (fst (Particle m ty dust h g))"
  using assms by (simp add: particle_wf_def Particle_fields)

lemma treeTarget_particleW: "cells heapW (posTree particleW) = Vector3 (232/25) (-12) 0"
  using treeTarget_rngWide by (simp add: treeTargetOf_def particleW_def heapW_def split_def)

lemma update_converged:
  assumes wf: "particle_wf p"
    and conv: "updateTarget e md ft p h = cells h (position (mesh p))"
  shows "cells (snd (update e dt md ft p h)) (position (mesh p)) = cells h (position (mesh p))"
proof -
  have "position (mesh p) \<noteq> rotation (mesh p)" "position (mesh p) \<noteq> scale (mesh p)"
    using wf by (auto simp add: particle_wf_def)
  from update_position [OF this] conv show ?thesis
    by (simp add: lerpV_same)
qed

lemma update_keeps_target:
  assumes wf: "particle_wf p"
  shows "updateTarget e' md' ft' p (snd (update e dt md ft p h)) = updateTarget e' md' ft' p h"
proof -
  have "posTree p \<noteq> position (mesh p)" "posTree p \<noteq> rotation (mesh p)"
    "posTree p \<noteq> scale (mesh p)" "posScatter p \<noteq> position (mesh p)"
    "posScatter p \<noteq> rotation (mesh p)" "posScatter p \<noteq> scale (mesh p)"
    using wf by (auto simp add: particle_wf_def)
  then show ?thesis
    by (intro updateTarget_cong update_frame)
qed

lemma particle_wf_boxC: "particle_wf boxC"
  by (simp add: particle_wf_def boxC_def)

section \<open>Layout generator\<close>

text \<open>
  C2, as stated: every tree-layout point has a horizontal radius between 0 and the
  configured tree radius 8. The statement fails: with a height draw of 0 the cone radius
  is the full 8, and a jitter draw of 0.9 scales it by 1.16, which puts the point at
  radius 9.28.
\<close>

theorem C2_counterexample:
  "rng_ok rngWide \<and>
   horizontalRadius (treeTargetOf (Particle mesh0 BOX False heap0 rngWide)) = 232/25 \<and>
   \<not> horizontalRadius (treeTargetOf (Particle mesh0 BOX False heap0 rngWide)) \<le> treeRadius"
proof -
  have "horizontalRadius (Vector3 (232/25) (-12) 0) = \<bar>232/25\<bar>"
    using horizontalRadius_polar [of 0 "232/25" "-12"] by simp
  then show ?thesis
    by (simp add: rng_ok_rngWide treeTarget_rngWide treeRadius_def)
qed

text \<open>
  C2, amended: for every tree-layout point the constructor produces, over all draws in
  \<open>[0, 1)\<close>, the horizontal radius is non-negative and at most 1.2 times the
  configured tree radius, that is 9.6: the cone radius, floored at 0.5 and at most 8,
  is scaled by a jitter factor in \<open>[0.8, 1.2)\<close>.
\<close>

theorem C2_tree_radius:
  assumes "rng_ok g"
  shows "0 \<le> horizontalRadius (treeTargetOf (Particle m ty dust h g)) \<and>
         horizontalRadius (treeTargetOf (Particle m ty dust h g)) \<le> 1.2 * treeRadius"
proof -
  have d: "0 \<le> draws g (cursor g + 5)" "draws g (cursor g + 5) < 1"
    using assms by (simp_all add: rng_ok_def)
  note b = tree_radius_bounds [OF d, of "draws g (cursor g + 3)"]
  have "horizontalRadius (treeTargetOf (Particle m ty dust h g)) =
        \<bar>max 0.5 (treeRadius * (1.0 - draws g (cursor g + 3) powr 0.8))
          * (0.8 + draws g (cursor g + 5) * 0.4)\<bar>"
    by (simp only: treeTargetOf_Particle Let_def horizontalRadius_polar)
  with b show ?thesis by simp
qed

theorem C2_tree_radius_witness:
  "rng_ok rngWide \<and>
   0 \<le> horizontalRadius (treeTargetOf (Particle mesh0 BOX False heap0 rngWide)) \<and>
   horizontalRadius (treeTargetOf (Particle mesh0 BOX False heap0 rngWide)) \<le> 1.2 * treeRadius"
  using rng_ok_rngWide C2_tree_radius [OF rng_ok_rngWide, of mesh0 BOX False heap0] by blast

text \<open>
  C3: for every scatter-layout point the constructor produces, over all draws in
  \<open>[0, 1)\<close>, the distance from the origin lies in \<open>[12, 32]\<close> for a dust particle and
  in \<open>[8, 20]\<close> for any other.
\<close>

theorem C3_scatter_shell:
  assumes "rng_ok g"
  shows "(dust \<longrightarrow> 12 \<le> distanceFromOrigin (scatterTargetOf (Particle m ty dust h g)) \<and>
                  distanceFromOrigin (scatterTargetOf (Particle m ty dust h g)) \<le> 32) \<and>
         (\<not> dust \<longrightarrow> 8 \<le> distanceFromOrigin (scatterTargetOf (Particle m ty dust h g)) \<and>
                  distanceFromOrigin (scatterTargetOf (Particle m ty dust h g)) \<le> 20)"
proof -
  let ?u = "draws g (cursor g + 6)"
  have d: "0 \<le> ?u" "?u < 1"
    using assms by (simp_all add: rng_ok_def)
  have "distanceFromOrigin (scatterTargetOf (Particle m ty dust h g)) =
        \<bar>if dust then 12 + ?u * 20 else 8 + ?u * 12\<bar>"
    by (simp only: scatterTargetOf_Particle Let_def distanceFromOrigin_spherical)
  with d show ?thesis by (cases dust) simp_all
qed

theorem C3_scatter_shell_witness:
  "rng_ok rngHalf \<and>
   12 \<le> distanceFromOrigin (scatterTargetOf (Particle mesh0 DUST True heap0 rngHalf)) \<and>
   distanceFromOrigin (scatterTargetOf (Particle mesh0 DUST True heap0 rngHalf)) \<le> 32 \<and>
   8 \<le> distanceFromOrigin (scatterTargetOf (Particle mesh0 BOX False heap0 rngHalf)) \<and>
   distanceFromOrigin (scatterTargetOf (Particle mesh0 BOX False heap0 rngHalf)) \<le> 20"
  using rng_ok_rngHalf
    C3_scatter_shell [OF rng_ok_rngHalf, of True mesh0 DUST heap0]
    C3_scatter_shell [OF rng_ok_rngHalf, of False mesh0 BOX heap0]
  by blast

section \<open>Mode state machine\<close>

text \<open>
  C1: for a detected hand of 21 landmarks whose pinch distance is below 0.05, a call from
  any mode other than FOCUS returns with the mode FOCUS. With no photo in the particle
  system the focus target is left as it was. With \<open>n > 0\<close> photos the focus target
  becomes the mesh of photo number \<open>k = floor (u * n)\<close>, where \<open>u\<close> is the draw of
  \<^verbatim>\<open>Math.random()\<close>; photo \<open>j\<close> is chosen exactly for the draws in
  \<open>[j / n, (j + 1) / n)\<close>, so the \<open>n\<close> photos share \<open>[0, 1)\<close> in intervals of the
  same length and a uniform draw chooses uniformly.
\<close>

theorem C1_pinch_enters_focus:
  assumes res: "landmarks res = Some (lm # others)"
    and len: "length lm = 21"
    and pinch: "pinchDist lm < 0.05"
    and md: "mode st \<noteq> FOCUS"
    and g: "rng_ok g"
  shows "\<exists>st' g'. processGestures res ps (st, g) = Inr (st', g') \<and> mode st' = FOCUS \<and>
           (let photos = filter (\<lambda>p. ptype p = PHOTO) ps;
                n = length photos;
                u = draws g (cursor g);
                k = nat \<lfloor>u * real n\<rfloor>
            in if n = 0 then focusTarget st' = focusTarget st
               else k < n \<and> focusTarget st' = Some (mesh (photos ! k)) \<and>
                    (\<forall>j<n. (k = j) = (real j / real n \<le> u \<and> u < real (j + 1) / real n)))"
proof -
  let ?photos = "filter (\<lambda>p. ptype p = PHOTO) ps"
  let ?n = "length ?photos"
  let ?u = "draws g (cursor g)"
  have u: "0 \<le> ?u" "?u < 1" using g by (simp_all add: rng_ok_def)
  show ?thesis
  proof (cases "?n = 0")
    case True
    then show ?thesis using res len pinch md
      by (simp add: processGestures_def Let_def)
  next
    case False
    then have n: "0 < ?n" by simp
    note i = pick_index [OF u n]
    have k: "nat \<lfloor>?u * real ?n\<rfloor> < ?n" using i by linarith
    have "\<forall>j<?n. (nat \<lfloor>?u * real ?n\<rfloor> = j) = (real j / real ?n \<le> ?u \<and> ?u < real (j + 1) / real ?n)"
      using pick_interval [OF u(1) n] by blast
    then show ?thesis using res len pinch md False i k
      by (simp add: processGestures_def Let_def Math_random_def)
  qed
qed

theorem C1_pinch_enters_focus_witness:
  "pinchDist (flatHand (8/25) (3/10)) = 1/50 \<and>
   mode (stateAfter (processGestures \<lparr>landmarks = Some [flatHand (8/25) (3/10)]\<rparr>
                       [boxC, photoA, photoB] (STATE0, rngHalf))) = FOCUS \<and>
   focusTarget (stateAfter (processGestures \<lparr>landmarks = Some [flatHand (8/25) (3/10)]\<rparr>
                       [boxC, photoA, photoB] (STATE0, rngHalf))) = Some (mesh photoB)"
proof -
  let ?res = "\<lparr>landmarks = Some [flatHand (8/25) (3/10)]\<rparr>"
  have p: "pinchDist (flatHand (8/25) (3/10)) = 1/50"
    by (simp add: pinchDist_flatHand)
  have h1: "landmarks ?res = Some (flatHand (8/25) (3/10) # [])" by simp
  have h3: "pinchDist (flatHand (8/25) (3/10)) < 0.05" by (simp add: p)
  have h4: "mode STATE0 \<noteq> FOCUS" by (simp add: STATE0_def)
  from C1_pinch_enters_focus [OF h1 length_flatHand h3 h4 rng_ok_rngHalf, of "[boxC, photoA, photoB]"]
  obtain st' g' where
    r: "processGestures ?res [boxC, photoA, photoB] (STATE0, rngHalf) = Inr (st', g')"
    and m: "mode st' = FOCUS"
    and f: "(let photos = filter (\<lambda>p. ptype p = PHOTO) [boxC, photoA, photoB];
                n = length photos;
                u = draws rngHalf (cursor rngHalf);
                k = nat \<lfloor>u * real n\<rfloor>
            in if n = 0 then focusTarget st' = focusTarget STATE0
               else k < n \<and> focusTarget st' = Some (mesh (photos ! k)) \<and>
                    (\<forall>j<n. (k = j) = (real j / real n \<le> u \<and> u < real (j + 1) / real n)))"
    by blast
  have ph: "filter (\<lambda>p. ptype p = PHOTO) [boxC, photoA, photoB] = [photoA, photoB]"
    by (simp add: boxC_def photoA_def photoB_def)
  have "focusTarget st' = Some (mesh photoB)"
    using f unfolding ph by (simp add: rngHalf_def Let_def)
  with p r m show ?thesis by (simp add: stateAfter_def)
qed

text \<open>
  C4, as stated: every detected hand whose average fingertip-to-wrist distance is 0.5 sets
  the mode to SCATTER and clears the focus target. The statement fails for a hand that
  pinches at the same time: the pinch branch is taken first, the mode becomes FOCUS and
  a photo becomes the focus target.
\<close>

theorem C4_counterexample:
  "length (flatHand (1/2) (1/2)) = 21 \<and> avgDist (flatHand (1/2) (1/2)) = 1/2 \<and>
   mode (stateAfter (processGestures \<lparr>landmarks = Some [flatHand (1/2) (1/2)]\<rparr> [photoA]
           (STATE0, rngHalf))) = FOCUS \<and>
   focusTarget (stateAfter (processGestures \<lparr>landmarks = Some [flatHand (1/2) (1/2)]\<rparr> [photoA]
           (STATE0, rngHalf))) = Some (mesh photoA)"
  by (simp add: processGestures_def Let_def length_flatHand pinchDist_flatHand avgDist_flatHand
      stateAfter_def STATE0_def photoA_def rngHalf_def Math_random_def)

text \<open>
  C4, amended: for a detected hand of 21 landmarks that does not pinch (pinch distance at
  least 0.05) and whose average fingertip-to-wrist distance is above the open-hand
  threshold 0.4 (0.5, say), the call returns with the mode SCATTER and no focus target.
\<close>

theorem C4_open_hand:
  assumes res: "landmarks res = Some (lm # others)"
    and len: "length lm = 21"
    and nopinch: "0.05 \<le> pinchDist lm"
    and opn: "0.4 < avgDist lm"
  shows "\<exists>st'. processGestures res ps (st, g) = Inr (st', g) \<and>
               mode st' = SCATTER \<and> focusTarget st' = None"
  using assms by (simp add: processGestures_def Let_def)

theorem C4_open_hand_witness:
  "avgDist (flatHand 0 (1/2)) = 1/2 \<and>
   mode (stateAfter (processGestures \<lparr>landmarks = Some [flatHand 0 (1/2)]\<rparr> [photoA]
           (STATE0\<lparr>mode := FOCUS, focusTarget := Some (mesh photoA)\<rparr>, rngHalf))) = SCATTER \<and>
   focusTarget (stateAfter (processGestures \<lparr>landmarks = Some [flatHand 0 (1/2)]\<rparr> [photoA]
           (STATE0\<lparr>mode := FOCUS, focusTarget := Some (mesh photoA)\<rparr>, rngHalf))) = None"
proof -
  let ?res = "\<lparr>landmarks = Some [flatHand 0 (1/2)]\<rparr>"
  have a: "avgDist (flatHand 0 (1/2)) = 1/2" by (simp add: avgDist_flatHand)
  have h1: "landmarks ?res = Some (flatHand 0 (1/2) # [])" by simp
  have h3: "0.05 \<le> pinchDist (flatHand 0 (1/2))" by (simp add: pinchDist_flatHand)
  have h4: "0.4 < avgDist (flatHand 0 (1/2))" by (simp add: a)
  from C4_open_hand [OF h1 length_flatHand h3 h4, of "[photoA]"
      "STATE0\<lparr>mode := FOCUS, focusTarget := Some (mesh photoA)\<rparr>" rngHalf]
  obtain st' where "processGestures ?res [photoA]
      (STATE0\<lparr>mode := FOCUS, focusTarget := Some (mesh photoA)\<rparr>, rngHalf) = Inr (st', rngHalf)"
    and "mode st' = SCATTER" and "focusTarget st' = None"
    by blast
  with a show ?thesis by (simp add: stateAfter_def)
qed

text \<open>
  C5, as stated: every detected hand whose average fingertip-to-wrist distance is 0.1 sets
  the mode to TREE and clears the focus target. The statement fails for a hand that
  pinches at the same time: the mode becomes FOCUS and a photo becomes the focus target.
\<close>

theorem C5_counterexample:
  "length (flatHand (1/10) (1/10)) = 21 \<and> avgDist (flatHand (1/10) (1/10)) = 1/10 \<and>
   mode (stateAfter (processGestures \<lparr>landmarks = Some [flatHand (1/10) (1/10)]\<rparr> [photoA]
           (STATE0\<lparr>mode := SCATTER\<rparr>, rngHalf))) = FOCUS \<and>
   focusTarget (stateAfter (processGestures \<lparr>landmarks = Some [flatHand (1/10) (1/10)]\<rparr> [photoA]
           (STATE0\<lparr>mode := SCATTER\<rparr>, rngHalf))) = Some (mesh photoA)"
  by (simp add: processGestures_def Let_def length_flatHand pinchDist_flatHand avgDist_flatHand
      stateAfter_def STATE0_def photoA_def rngHalf_def Math_random_def)

text \<open>
  C5, amended: for a detected hand of 21 landmarks that does not pinch (pinch distance at
  least 0.05) and whose average fingertip-to-wrist distance is below the closed-hand
  threshold 0.25 (0.1, say), the call returns with the mode TREE and no focus target.
\<close>

theorem C5_closed_hand:
  assumes res: "landmarks res = Some (lm # others)"
    and len: "length lm = 21"
    and nopinch: "0.05 \<le> pinchDist lm"
    and closed: "avgDist lm < 0.25"
  shows "\<exists>st'. processGestures res ps (st, g) = Inr (st', g) \<and>
               mode st' = TREE \<and> focusTarget st' = None"
  using assms by (simp add: processGestures_def Let_def)

theorem C5_closed_hand_witness:
  "avgDist (flatHand 0 (1/10)) = 1/10 \<and>
   mode (stateAfter (processGestures \<lparr>landmarks = Some [flatHand 0 (1/10)]\<rparr> [photoA]
           (STATE0\<lparr>mode := FOCUS, focusTarget := Some (mesh photoA)\<rparr>, rngHalf))) = TREE \<and>
   focusTarget (stateAfter (processGestures \<lparr>landmarks = Some [flatHand 0 (1/10)]\<rparr> [photoA]
           (STATE0\<lparr>mode := FOCUS, focusTarget := Some (mesh photoA)\<rparr>, rngHalf))) = None"
proof -
  let ?res = "\<lparr>landmarks = Some [flatHand 0 (1/10)]\<rparr>"
  have a: "avgDist (flatHand 0 (1/10)) = 1/10" by (simp add: avgDist_flatHand)
  have h1: "landmarks ?res = Some (flatHand 0 (1/10) # [])" by simp
  have h3: "0.05 \<le> pinchDist (flatHand 0 (1/10))" by (simp add: pinchDist_flatHand)
  have h4: "avgDist (flatHand 0 (1/10)) < 0.25" by (simp add: a)
  from C5_closed_hand [OF h1 length_flatHand h3 h4, of "[photoA]"
      "STATE0\<lparr>mode := FOCUS, focusTarget := Some (mesh photoA)\<rparr>" rngHalf]
  obtain st' where "processGestures ?res [photoA]
      (STATE0\<lparr>mode := FOCUS, focusTarget := Some (mesh photoA)\<rparr>, rngHalf) = Inr (st', rngHalf)"
    and "mode st' = TREE" and "focusTarget st' = None"
    by blast
  with a show ?thesis by (simp add: stateAfter_def)
qed

text \<open>
  C6: when no hand is detected (the landmark result is missing or empty), or a hand of 21
  landmarks is detected with pinch distance at least 0.05 and average fingertip-to-wrist
  distance strictly between 0.25 and 0.4, the call returns and leaves both the mode and
  the focus target as they were.
\<close>

theorem C6_no_transition:
  assumes "landmarks res = None \<or> landmarks res = Some [] \<or>
           (\<exists>lm others. landmarks res = Some (lm # others) \<and> length lm = 21 \<and>
               0.05 \<le> pinchDist lm \<and> 0.25 < avgDist lm \<and> avgDist lm < 0.4)"
  shows "\<exists>st'. processGestures res ps (st, g) = Inr (st', g) \<and>
               mode st' = mode st \<and> focusTarget st' = focusTarget st"
  using assms by (auto simp add: processGestures_def Let_def)

theorem C6_no_transition_witness:
  "pinchDist (flatHand 0 (3/10)) = 3/10 \<and> avgDist (flatHand 0 (3/10)) = 3/10 \<and>
   mode (stateAfter (processGestures \<lparr>landmarks = Some [flatHand 0 (3/10)]\<rparr> [photoA]
           (STATE0\<lparr>mode := FOCUS, focusTarget := Some (mesh photoA)\<rparr>, rngHalf))) = FOCUS \<and>
   focusTarget (stateAfter (processGestures \<lparr>landmarks = Some [flatHand 0 (3/10)]\<rparr> [photoA]
           (STATE0\<lparr>mode := FOCUS, focusTarget := Some (mesh photoA)\<rparr>, rngHalf))) = Some (mesh photoA) \<and>
   mode (stateAfter (processGestures \<lparr>landmarks = Some []\<rparr> [photoA]
           (STATE0\<lparr>mode := SCATTER\<rparr>, rngHalf))) = SCATTER \<and>
   focusTarget (stateAfter (processGestures \<lparr>landmarks = Some []\<rparr> [photoA]
           (STATE0\<lparr>mode := SCATTER\<rparr>, rngHalf))) = None"
proof -
  let ?res = "\<lparr>landmarks = Some [flatHand 0 (3/10)]\<rparr>"
  let ?none = "\<lparr>landmarks = Some ([] :: landmark list list)\<rparr>"
  have p: "pinchDist (flatHand 0 (3/10)) = 3/10" by (simp add: pinchDist_flatHand)
  have a: "avgDist (flatHand 0 (3/10)) = 3/10" by (simp add: avgDist_flatHand)
  have h: "landmarks ?res = None \<or> landmarks ?res = Some [] \<or>
           (\<exists>lm others. landmarks ?res = Some (lm # others) \<and> length lm = 21 \<and>
               0.05 \<le> pinchDist lm \<and> 0.25 < avgDist lm \<and> avgDist lm < 0.4)"
    by (simp add: p a length_flatHand)
  have h': "landmarks ?none = None \<or> landmarks ?none = Some [] \<or>
           (\<exists>lm others. landmarks ?none = Some (lm # others) \<and> length lm = 21 \<and>
               0.05 \<le> pinchDist lm \<and> 0.25 < avgDist lm \<and> avgDist lm < 0.4)"
    by simp
  from C6_no_transition [OF h, of "[photoA]" "STATE0\<lparr>mode := FOCUS, focusTarget := Some (mesh photoA)\<rparr>" rngHalf]
  have 1: "mode (stateAfter (processGestures ?res [photoA]
           (STATE0\<lparr>mode := FOCUS, focusTarget := Some (mesh photoA)\<rparr>, rngHalf))) = FOCUS \<and>
        focusTarget (stateAfter (processGestures ?res [photoA]
           (STATE0\<lparr>mode := FOCUS, focusTarget := Some (mesh photoA)\<rparr>, rngHalf))) = Some (mesh photoA)"
    by (fastforce simp: stateAfter_def)
  from C6_no_transition [OF h', of "[photoA]" "STATE0\<lparr>mode := SCATTER\<rparr>" rngHalf]
  have 2: "mode (stateAfter (processGestures ?none [photoA] (STATE0\<lparr>mode := SCATTER\<rparr>, rngHalf))) = SCATTER \<and>
        focusTarget (stateAfter (processGestures ?none [photoA] (STATE0\<lparr>mode := SCATTER\<rparr>, rngHalf))) = None"
    by (fastforce simp: stateAfter_def STATE0_def)
  from p a 1 2 show ?thesis by blast
qed

text \<open>
  C8: from the initial state (mode TREE, no focus target), after any sequence of
  gesture-processing calls, on any particle systems and with any generator, a focus
  target is present only while the mode is FOCUS.
\<close>

theorem C8_focus_only_in_FOCUS:
  "focusTarget (fst (runGestures calls (STATE0, g))) \<noteq> None \<longrightarrow>
   mode (fst (runGestures calls (STATE0, g))) = FOCUS"
  by (rule runGestures_keeps_focus_inv) (simp add: STATE0_def)

theorem C8_focus_only_in_FOCUS_witness:
  "focusTarget (fst (runGestures callsPinch (STATE0, rngHalf))) \<noteq> None \<and>
   mode (fst (runGestures callsPinch (STATE0, rngHalf))) = FOCUS"
proof -
  have a: "focusTarget (fst (runGestures callsPinch (STATE0, rngHalf))) \<noteq> None"
    by (simp add: runGestures_callsPinch)
  from C8_focus_only_in_FOCUS [of callsPinch rngHalf] a show ?thesis by blast
qed

text \<open>
  C10: for a detected hand of 21 landmarks whose pinch distance is below 0.05, the call
  returns with the mode FOCUS whatever the average fingertip-to-wrist distance is, and
  a mode that already was FOCUS keeps its focus target. The outcome does not depend on
  the openness at all: any other hand with the same landmarks 4, 8 and 9 gives the very
  same result.
\<close>

theorem C10_pinch_precedence:
  assumes res: "landmarks res = Some (lm # others)"
    and len: "length lm = 21"
    and pinch: "pinchDist lm < 0.05"
    and g: "rng_ok g"
  shows "\<exists>st' g'. processGestures res ps (st, g) = Inr (st', g') \<and> mode st' = FOCUS \<and>
           (mode st = FOCUS \<longrightarrow> focusTarget st' = focusTarget st) \<and>
           (\<forall>lm' others'. length lm' = 21 \<and> lm' ! 4 = lm ! 4 \<and> lm' ! 8 = lm ! 8 \<and> lm' ! 9 = lm ! 9 \<longrightarrow>
              processGestures \<lparr>landmarks = Some (lm' # others')\<rparr> ps (st, g) =
              processGestures res ps (st, g))"
proof -
  from pinch_gives_FOCUS [OF res len pinch g, of ps st]
  obtain st' g' where a: "processGestures res ps (st, g) = Inr (st', g')" "mode st' = FOCUS"
    "mode st = FOCUS \<longrightarrow> focusTarget st' = focusTarget st"
    by blast
  have b: "\<forall>lm' others'. length lm' = 21 \<and> lm' ! 4 = lm ! 4 \<and> lm' ! 8 = lm ! 8 \<and> lm' ! 9 = lm ! 9 \<longrightarrow>
              processGestures \<lparr>landmarks = Some (lm' # others')\<rparr> ps (st, g) =
              processGestures res ps (st, g)"
    using pinch_ignores_other_landmarks [OF res len _ _ _ _ pinch] by blast
  from a b show ?thesis by blast
qed

theorem C10_pinch_precedence_witness:
  "pinchDist (flatHand (1/2) (1/2)) = 0 \<and> avgDist (flatHand (1/2) (1/2)) = 1/2 \<and>
   mode (stateAfter (processGestures \<lparr>landmarks = Some [flatHand (1/2) (1/2)]\<rparr> [boxC]
           (STATE0\<lparr>mode := SCATTER\<rparr>, rngHalf))) = FOCUS \<and>
   avgDist curledHand = 1/8 \<and>
   processGestures \<lparr>landmarks = Some [curledHand]\<rparr> [boxC] (STATE0\<lparr>mode := SCATTER\<rparr>, rngHalf) =
   processGestures \<lparr>landmarks = Some [flatHand (1/2) (1/2)]\<rparr> [boxC]
           (STATE0\<lparr>mode := SCATTER\<rparr>, rngHalf)"
proof -
  let ?opn = "\<lparr>landmarks = Some [flatHand (1/2) (1/2)]\<rparr>"
  let ?st = "STATE0\<lparr>mode := SCATTER\<rparr>"
  have p1: "pinchDist (flatHand (1/2) (1/2)) = 0" by (simp add: pinchDist_flatHand)
  have a1: "avgDist (flatHand (1/2) (1/2)) = 1/2" by (simp add: avgDist_flatHand)
  have r1: "landmarks ?opn = Some (flatHand (1/2) (1/2) # [])" by simp
  have q1: "pinchDist (flatHand (1/2) (1/2)) < 0.05" by (simp add: p1)
  from C10_pinch_precedence [OF r1 length_flatHand q1 rng_ok_rngHalf, of "[boxC]" ?st]
  obtain s1 g1 where "processGestures ?opn [boxC] (?st, rngHalf) = Inr (s1, g1)"
    and "mode s1 = FOCUS"
    and ind: "\<forall>lm' others'. length lm' = 21 \<and> lm' ! 4 = flatHand (1/2) (1/2) ! 4 \<and>
                 lm' ! 8 = flatHand (1/2) (1/2) ! 8 \<and> lm' ! 9 = flatHand (1/2) (1/2) ! 9 \<longrightarrow>
              processGestures \<lparr>landmarks = Some (lm' # others')\<rparr> [boxC] (?st, rngHalf) =
              processGestures ?opn [boxC] (?st, rngHalf)"
    by blast
  then have m1: "mode (stateAfter (processGestures ?opn [boxC] (?st, rngHalf))) = FOCUS"
    by (simp add: stateAfter_def)
  from ind length_curledHand curledHand_nth
  have e: "processGestures \<lparr>landmarks = Some (curledHand # [])\<rparr> [boxC] (?st, rngHalf) =
           processGestures ?opn [boxC] (?st, rngHalf)"
    by blast
  from p1 a1 m1 avgDist_curledHand e show ?thesis by blast
qed

section \<open>Per-frame updater\<close>

text \<open>
  C7: for a particle whose six objects are different ones (as the constructor builds
  it), a mode and a focus target: if the position equals the interpolation target of
  every frame of a run, then after the run, of one frame or of many and whatever the
  elapsed times, the position is what it was.
\<close>

theorem C7_update_idempotent_at_target:
  assumes wf: "particle_wf p"
    and conv: "\<forall>(e, dt) \<in> set frames. updateTarget e md ft p h = cells h (position (mesh p))"
  shows "cells (snd (updates (map (\<lambda>(e, dt). (e, dt, md, ft)) frames) p h)) (position (mesh p))
         = cells h (position (mesh p))"
  using conv
proof (induction frames arbitrary: h)
  case Nil
  then show ?case by simp
next
  case (Cons f frames)
  obtain e dt where f: "f = (e, dt)" by (cases f)
  let ?h1 = "snd (update e dt md ft p h)"
  from Cons.prems have here: "updateTarget e md ft p h = cells h (position (mesh p))"
    by (simp add: f)
  have pos: "cells ?h1 (position (mesh p)) = cells h (position (mesh p))"
    by (rule update_converged [OF wf here])
  have "\<forall>(e', dt') \<in> set frames. updateTarget e' md ft p ?h1 = cells ?h1 (position (mesh p))"
    using Cons.prems by (auto simp add: update_keeps_target [OF wf] pos)
  from Cons.IH [OF this] pos show ?case
    by (simp add: f updates_Cons del: updates.simps)
qed

theorem C7_update_idempotent_at_target_witness:
  "cells (snd (updates (map (\<lambda>(e, dt). (e, dt, SCATTER, None)) framesC) boxC heapC))
     (position (mesh boxC)) = Vector3 1 2 3 \<and>
   cells (snd (updates (map (\<lambda>(e, dt). (e, dt, FOCUS, Some (mesh boxC))) framesC) boxC heapF))
     (position (mesh boxC)) = Vector3 0 2 35"
proof -
  have c1: "\<forall>(e, dt) \<in> set framesC.
      updateTarget e SCATTER None boxC heapC = cells heapC (position (mesh boxC))"
    by (simp add: framesC_def updateTarget_def boxC_def heapC_def)
  have c2: "\<forall>(e, dt) \<in> set framesC.
      updateTarget e FOCUS (Some (mesh boxC)) boxC heapF = cells heapF (position (mesh boxC))"
    by (simp add: framesC_def updateTarget_def boxC_def heapF_def envW_def)
  have v1: "cells heapC (position (mesh boxC)) = Vector3 1 2 3"
    by (simp add: boxC_def heapC_def)
  have v2: "cells heapF (position (mesh boxC)) = Vector3 0 2 35"
    by (simp add: boxC_def heapF_def)
  from C7_update_idempotent_at_target [OF particle_wf_boxC c1]
       C7_update_idempotent_at_target [OF particle_wf_boxC c2] v1 v2
  show ?thesis by simp
qed

text \<open>
  C9: for a particle built by the constructor on a mesh whose three objects exist and
  are different ones, any run of per-frame updates, in any modes, with any focus targets
  and elapsed times, leaves the particle's fields as they were (its type, dust flag, base
  scale and its references to the two layout targets and the spin velocity), and leaves
  the values of the tree target, the scatter target and the spin velocity as the
  constructor computed them.
\<close>

theorem C9_layout_targets_frame:
  assumes m: "distinct [position m, rotation m, scale m]"
    and a: "position m < nextAddr h0" "rotation m < nextAddr h0" "scale m < nextAddr h0"
    and new: "Particle m ty dust h0 g0 = (p, h1, g1)"
    and run: "updates frames p h1 = (p', h')"
  shows "p' = p \<and> cells h' (posTree p) = cells h1 (posTree p) \<and>
         cells h' (posScatter p) = cells h1 (posScatter p) \<and>
         cells h' (spinSpeed p) = cells h1 (spinSpeed p)"
proof -
  have p: "p = fst (Particle m ty dust h0 g0)" using new by simp
  have wf: "particle_wf p" unfolding p by (rule Particle_wf [OF m a])
  have "p' = fst (updates frames p h1)" "h' = snd (updates frames p h1)"
    using run by simp_all
  moreover have "posTree p \<noteq> position (mesh p)" "posTree p \<noteq> rotation (mesh p)"
    "posTree p \<noteq> scale (mesh p)" "posScatter p \<noteq> position (mesh p)"
    "posScatter p \<noteq> rotation (mesh p)" "posScatter p \<noteq> scale (mesh p)"
    "spinSpeed p \<noteq> position (mesh p)" "spinSpeed p \<noteq> rotation (mesh p)"
    "spinSpeed p \<noteq> scale (mesh p)"
    using wf by (auto simp add: particle_wf_def)
  ultimately show ?thesis
    by (simp add: updates_fst updates_frame)
qed

theorem C9_layout_targets_frame_witness:
  "fst (updates framesW particleW heapW) = particleW \<and>
   cells (snd (updates framesW particleW heapW)) (posTree particleW) = Vector3 (232/25) (-12) 0 \<and>
   cells (snd (updates framesW particleW heapW)) (posScatter particleW) = cells heapW (posScatter particleW) \<and>
   cells (snd (updates framesW particleW heapW)) (spinSpeed particleW) = cells heapW (spinSpeed particleW)"
proof -
  have m: "distinct [position mesh0, rotation mesh0, scale mesh0]"
    by (simp add: mesh0_def)
  have a: "position mesh0 < nextAddr heap0" "rotation mesh0 < nextAddr heap0"
    "scale mesh0 < nextAddr heap0"
    by (simp_all add: mesh0_def heap0_def)
  have new: "Particle mesh0 BOX False heap0 rngWide =
        (particleW, heapW, snd (snd (Particle mesh0 BOX False heap0 rngWide)))"
    by (simp add: particleW_def heapW_def)
  have run: "updates framesW particleW heapW =
        (fst (updates framesW particleW heapW), snd (updates framesW particleW heapW))"
    by simp
  from C9_layout_targets_frame [OF m a new run] treeTarget_particleW
  show ?thesis by simp
qed

end
